theory Spec2Isabelle
  imports Main
begin

section \<open>Tokens, iterators, panics\<close>

text \<open>
  Go declares \<^verbatim>\<open>type TokenType int\<close> (serialise.go builds the template
  \<^verbatim>\<open>TokenType(0)\<close>). The constant \<^verbatim>\<open>Error\<close> used by emitters.go is declared outside the
  files at hand, so every function that mentions it takes it as its first argument.
\<close>

type_synonym TokenType = int

text \<open>A token is a category and the text it covers.\<close>

datatype Token = Token TokenType string

text \<open>
  An \<^verbatim>\<open>Iterator\<close> is a Go function value that yields tokens until EOF. A non-nil
  iterator is modelled by the tokens it yields, in order.
\<close>

type_synonym Iterator = "Token list"

text \<open>The value of Go's \<^verbatim>\<open>error\<close> returned by a lexer is its message.\<close>

type_synonym error = string

text \<open>
  A panic unwinds the calling goroutine; nothing in emitters.go recovers. The result of
  every \<^verbatim>\<open>Emit\<close> is therefore either a panic or the iterator it returns.
\<close>

datatype panic =
    MakesliceCapOutOfRange
  | IndexOutOfRange
  | NilDereference
  | PanicString string
  | PanicError error

text \<open>\<^verbatim>\<open>TokeniseOptions{State, Nested}\<close>.\<close>

datatype TokeniseOptions = TokeniseOptions string bool

text \<open>The \<^verbatim>\<open>Lexer\<close> interface, as far as emitters.go calls it.\<close>

record Lexer =
  Tokenise :: "TokeniseOptions option \<Rightarrow> string \<Rightarrow> error + Iterator"

text \<open>
  A compiled regular expression, as far as emitters.go calls it
  (\<^verbatim>\<open>GroupNameFromNumber\<close> of the regexp2 library).
\<close>

record Regexp =
  GroupNameFromNumber :: "int \<Rightarrow> string"

record CompiledRule =
  Regexp :: Regexp

text \<open>
  The fields of \<^verbatim>\<open>LexerState\<close> that emitters.go reads. \<^verbatim>\<open>Rules\<close> maps a state name
  to its compiled rules, \<^verbatim>\<open>State\<close> and \<^verbatim>\<open>Rule\<close> name the rule that matched, and
  \<^verbatim>\<open>NamedGroups\<close> maps a group name to the text it captured.
\<close>

record LexerState =
  Lexer :: Lexer
  Rules :: "string \<rightharpoonup> CompiledRule list"
  State :: string
  Rule :: int
  NamedGroups :: "string \<rightharpoonup> string"

text \<open>
  A non-nil value of the interface \<^verbatim>\<open>Emitter\<close> is an object with one method,
  \<^verbatim>\<open>Emit(groups, state)\<close>; it is modelled by that method. A nil interface value is
  \<open>None\<close> in an \<open>Emitter option\<close>.
\<close>

type_synonym Emitter = "string list \<Rightarrow> LexerState \<Rightarrow> panic + Iterator"

text \<open>
  Modelled from the spec: \<^verbatim>\<open>TokenType.Emit\<close> is not in the files at hand. "Direct token
  type: the entire match becomes one token of a fixed category." The entire match is
  \<^verbatim>\<open>groups[0]\<close>; reading it from an empty slice is an index panic in Go.
\<close>

definition TokenType_Emit :: "TokenType \<Rightarrow> Emitter" where
  "TokenType_Emit t groups state =
     (case groups of [] \<Rightarrow> Inl IndexOutOfRange | g # _ \<Rightarrow> Inr [Token t g])"

text \<open>
  Modelled from the spec: \<^verbatim>\<open>Concaterator\<close> is not in the files at hand. It "concatenates
  results in group order". Its arguments are Go function values; \<^verbatim>\<open>UsingByGroup\<close> can
  pass nil ones, and calling a nil function value panics.
\<close>

definition Concaterator :: "Iterator option list \<Rightarrow> panic + Iterator" where
  "Concaterator iterators =
     (if None \<in> set iterators then Inl NilDereference
      else Inr (concat (map the iterators)))"

section \<open>emitters.go\<close>

subsection \<open>byGroupsEmitter\<close>

text \<open>
  The loop \<^verbatim>\<open>for i, group := range groups[1:]\<close> of \<^verbatim>\<open>byGroupsEmitter.Emit\<close>:
  the index \<open>i\<close>, the groups still to visit, and the slice \<open>iterators\<close> built so far.
\<close>

fun byGroups_loop ::
  "Emitter option list \<Rightarrow> LexerState \<Rightarrow> nat \<Rightarrow> string list \<Rightarrow> Iterator list
     \<Rightarrow> panic + Iterator list" where
  "byGroups_loop Emitters state i [] iterators = Inr iterators"
| "byGroups_loop Emitters state i (grp # rest) iterators =
     (if i < length Emitters then
        (case Emitters ! i of
           None \<Rightarrow> byGroups_loop Emitters state (Suc i) rest iterators
         | Some e \<Rightarrow>
             (case e [grp] state of
                Inl p \<Rightarrow> Inl p
              | Inr it \<Rightarrow> byGroups_loop Emitters state (Suc i) rest (iterators @ [it])))
      else Inl IndexOutOfRange)"

definition byGroupsEmitter_Emit :: "TokenType \<Rightarrow> Emitter option list \<Rightarrow> Emitter" where
  "byGroupsEmitter_Emit Error Emitters groups state =
     (if int (length groups) - 1 < 0 then Inl MakesliceCapOutOfRange
      else if int (length Emitters) \<noteq> int (length groups) - 1 then
        (case TokenType_Emit Error groups state of
           Inl p \<Rightarrow> Inl p
         | Inr it \<Rightarrow> Concaterator [Some it])
      else
        (case byGroups_loop Emitters state 0 (tl groups) [] of
           Inl p \<Rightarrow> Inl p
         | Inr iterators \<Rightarrow> Concaterator (map Some iterators)))"

definition ByGroups :: "TokenType \<Rightarrow> Emitter option list \<Rightarrow> Emitter" where
  "ByGroups Error emitters = byGroupsEmitter_Emit Error emitters"

subsection \<open>byGroupNamesEmitter\<close>

text \<open>\<^verbatim>\<open>state.Rules[state.State][state.Rule].Regexp\<close>; a missing key gives a nil slice.\<close>

definition ruleRegex :: "LexerState \<Rightarrow> panic + Regexp" where
  "ruleRegex state =
     (let rules = (case Rules state (State state) of None \<Rightarrow> [] | Some rs \<Rightarrow> rs)
      in if 0 \<le> Rule state \<and> Rule state < int (length rules)
         then Inr (Regexp (rules ! nat (Rule state)))
         else Inl IndexOutOfRange)"

text \<open>\<^verbatim>\<open>state.NamedGroups[groupName]\<close>; a missing key gives the empty string.\<close>

definition namedGroup :: "LexerState \<Rightarrow> string \<Rightarrow> string" where
  "namedGroup state groupName =
     (case NamedGroups state groupName of None \<Rightarrow> [] | Some g \<Rightarrow> g)"

text \<open>
  The loop \<^verbatim>\<open>for i := 1; i < len(state.NamedGroups); i++\<close>; \<open>n\<close> is
  \<^verbatim>\<open>len(state.NamedGroups)\<close>.
\<close>

function byGroupNames_loop ::
  "TokenType \<Rightarrow> (string \<rightharpoonup> Emitter option) \<Rightarrow> LexerState \<Rightarrow> Regexp \<Rightarrow> nat \<Rightarrow> nat
     \<Rightarrow> Iterator list \<Rightarrow> panic + Iterator list" where
  "byGroupNames_loop Error Emitters state re n i iterators =
     (if i < n then
        (let groupName = GroupNameFromNumber re (int i);
             grp = namedGroup state groupName
         in case Emitters groupName of
              Some emitter \<Rightarrow>
                (case emitter of
                   Some e \<Rightarrow>
                     (case e [grp] state of
                        Inl p \<Rightarrow> Inl p
                      | Inr it \<Rightarrow>
                          byGroupNames_loop Error Emitters state re n (Suc i) (iterators @ [it]))
                 | None \<Rightarrow> byGroupNames_loop Error Emitters state re n (Suc i) iterators)
            | None \<Rightarrow>
                (case TokenType_Emit Error [grp] state of
                   Inl p \<Rightarrow> Inl p
                 | Inr it \<Rightarrow>
                     byGroupNames_loop Error Emitters state re n (Suc i) (iterators @ [it])))
      else Inr iterators)"
  by pat_completeness auto
termination
  by (relation "measure (\<lambda>(Error, Emitters, state, re, n, i, iterators). n - i)") auto

declare byGroupNames_loop.simps [simp del]

text \<open>
  \<^verbatim>\<open>len(state.NamedGroups)\<close> is the number of keys of the map. The first branch calls
  \<^verbatim>\<open>emitter.Emit\<close> without the nil test that the loop of the second branch makes.
\<close>

definition byGroupNamesEmitter_Emit ::
  "TokenType \<Rightarrow> (string \<rightharpoonup> Emitter option) \<Rightarrow> Emitter" where
  "byGroupNamesEmitter_Emit Error Emitters groups state =
     (let n = int (card (dom (NamedGroups state)))
      in if n - 1 < 0 then Inl MakesliceCapOutOfRange
         else if n - 1 = 0 then
           (case Emitters ''0'' of
              Some emitter \<Rightarrow>
                (case emitter of
                   None \<Rightarrow> Inl NilDereference
                 | Some e \<Rightarrow>
                     (case e groups state of
                        Inl p \<Rightarrow> Inl p
                      | Inr it \<Rightarrow> Concaterator [Some it]))
            | None \<Rightarrow>
                (case TokenType_Emit Error groups state of
                   Inl p \<Rightarrow> Inl p
                 | Inr it \<Rightarrow> Concaterator [Some it]))
         else
           (case ruleRegex state of
              Inl p \<Rightarrow> Inl p
            | Inr re \<Rightarrow>
                (case byGroupNames_loop Error Emitters state re (nat n) 1 [] of
                   Inl p \<Rightarrow> Inl p
                 | Inr iterators \<Rightarrow> Concaterator (map Some iterators))))"

definition ByGroupNames :: "TokenType \<Rightarrow> (string \<rightharpoonup> Emitter option) \<Rightarrow> Emitter" where
  "ByGroupNames Error emitters = byGroupNamesEmitter_Emit Error emitters"

subsection \<open>UsingByGroup\<close>

text \<open>
  The loop \<^verbatim>\<open>for i, group := range groups[1:]\<close> of \<^verbatim>\<open>UsingByGroup\<close>. The slice
  \<open>iterators\<close> is allocated with \<^verbatim>\<open>len(groups)-1\<close> nil entries and updated in place;
  \<open>i\<close> stays below that length. An entry whose emitter is nil stays nil.
\<close>

fun UsingByGroup_loop ::
  "Lexer option \<Rightarrow> int \<Rightarrow> Emitter option list \<Rightarrow> string list \<Rightarrow> LexerState \<Rightarrow> nat
     \<Rightarrow> string list \<Rightarrow> Iterator option list \<Rightarrow> panic + Iterator option list" where
  "UsingByGroup_loop sublexer codeGroup emitters groups state i [] iterators = Inr iterators"
| "UsingByGroup_loop sublexer codeGroup emitters groups state i (grp # rest) iterators =
     (case (if int i = codeGroup - 1 then sublexer else None) of
        Some l \<Rightarrow>
          (if 0 \<le> codeGroup \<and> codeGroup < int (length groups) then
             (case Tokenise l None (groups ! nat codeGroup) of
                Inl err \<Rightarrow> Inl (PanicError err)
              | Inr it \<Rightarrow>
                  UsingByGroup_loop sublexer codeGroup emitters groups state (Suc i) rest
                    (iterators[i := Some it]))
           else Inl IndexOutOfRange)
      | None \<Rightarrow>
          (if i < length emitters then
             (case emitters ! i of
                Some e \<Rightarrow>
                  (case e [grp] state of
                     Inl p \<Rightarrow> Inl p
                   | Inr it \<Rightarrow>
                       UsingByGroup_loop sublexer codeGroup emitters groups state (Suc i) rest
                         (iterators[i := Some it]))
              | None \<Rightarrow>
                  UsingByGroup_loop sublexer codeGroup emitters groups state (Suc i) rest
                    iterators)
           else Inl IndexOutOfRange))"

text \<open>
  \<^verbatim>\<open>UsingByGroup\<close> returns an \<^verbatim>\<open>EmitterFunc\<close>, whose \<^verbatim>\<open>Emit\<close> is the function itself.
\<close>

definition UsingByGroup ::
  "(string \<Rightarrow> Lexer option) \<Rightarrow> int \<Rightarrow> int \<Rightarrow> Emitter option list \<Rightarrow> Emitter" where
  "UsingByGroup sublexerGetFunc sublexerNameGroup codeGroup emitters groups state =
     (if int (length emitters) \<noteq> int (length groups) - 1 then
        Inl (PanicString
          ''UsingByGroup expects number of emitters to be the same as len(groups)-1'')
      else if \<not> (0 \<le> sublexerNameGroup \<and> sublexerNameGroup < int (length groups)) then
        Inl IndexOutOfRange
      else
        (let sublexer = sublexerGetFunc (groups ! nat sublexerNameGroup)
         in case UsingByGroup_loop sublexer codeGroup emitters groups state 0 (tl groups)
                   (replicate (length groups - 1) None) of
              Inl p \<Rightarrow> Inl p
            | Inr iterators \<Rightarrow> Concaterator iterators))"

subsection \<open>usingEmitter and usingSelfEmitter\<close>

text \<open>
  \<^verbatim>\<open>usingEmitter{Lexer, lexer}\<close>: the name and the lexer itself, which is nil after
  deserialising.
\<close>

definition usingEmitter_Emit :: "string \<Rightarrow> Lexer option \<Rightarrow> Emitter" where
  "usingEmitter_Emit Lexer_name lexer groups state =
     (case groups of
        [] \<Rightarrow> Inl IndexOutOfRange
      | g0 # _ \<Rightarrow>
          (case lexer of
             None \<Rightarrow> Inl NilDereference
           | Some l \<Rightarrow>
               (case Tokenise l (Some (TokeniseOptions ''root'' True)) g0 of
                  Inl err \<Rightarrow> Inl (PanicError err)
                | Inr it \<Rightarrow> Inr it)))"

definition usingSelfEmitter_Emit :: "string \<Rightarrow> Emitter" where
  "usingSelfEmitter_Emit State_name groups state =
     (case groups of
        [] \<Rightarrow> Inl IndexOutOfRange
      | g0 # _ \<Rightarrow>
          (case Tokenise (Lexer state) (Some (TokeniseOptions State_name True)) g0 of
             Inl err \<Rightarrow> Inl (PanicError err)
           | Inr it \<Rightarrow> Inr it))"

section \<open>Position by position\<close>

text \<open>
  The emitters build their result one capture group after the other and stop at the first
  panic. \<open>collect\<close> runs a list of such steps in order: the first panic wins, otherwise
  all the results are returned, in order.
\<close>

fun collect :: "('e + 'a) list \<Rightarrow> 'e + 'a list" where
  "collect [] = Inr []"
| "collect (x # xs) =
     (case x of
        Inl p \<Rightarrow> Inl p
      | Inr v \<Rightarrow> (case collect xs of Inl p \<Rightarrow> Inl p | Inr vs \<Rightarrow> Inr (v # vs)))"

text \<open>
  What one capture group contributes under its emitter: nothing when the emitter is nil,
  otherwise what the emitter makes of that group alone.
\<close>

definition group_tokens :: "LexerState \<Rightarrow> Emitter option \<Rightarrow> string \<Rightarrow> panic + Iterator" where
  "group_tokens state emitter grp =
     (case emitter of None \<Rightarrow> Inr [] | Some e \<Rightarrow> e [grp] state)"

text \<open>
  The same, as the iterator stored for the group: a nil iterator when the emitter is nil.
\<close>

definition group_iterator ::
  "LexerState \<Rightarrow> Emitter option \<Rightarrow> string \<Rightarrow> panic + Iterator option" where
  "group_iterator state emitter grp =
     (case emitter of
        None \<Rightarrow> Inr None
      | Some e \<Rightarrow> (case e [grp] state of Inl p \<Rightarrow> Inl p | Inr it \<Rightarrow> Inr (Some it)))"

text \<open>
  The entry of \<^verbatim>\<open>UsingByGroup\<close> for position \<open>j\<close>: the sublexer's tokens at the code
  group when there is a sublexer, the group's own emitter otherwise.
\<close>

definition using_slot ::
  "Lexer option \<Rightarrow> int \<Rightarrow> LexerState \<Rightarrow> nat \<Rightarrow> Emitter option \<Rightarrow> string
     \<Rightarrow> panic + Iterator option" where
  "using_slot sublexer codeGroup state j emitter grp =
     (case (if int j = codeGroup - 1 then sublexer else None) of
        Some l \<Rightarrow>
          (case Tokenise l None grp of
             Inl err \<Rightarrow> Inl (PanicError err)
           | Inr it \<Rightarrow> Inr (Some it))
      | None \<Rightarrow> group_iterator state emitter grp)"


section \<open>serialise.go\<close>

subsection \<open>XML tokens\<close>

text \<open>
  serialise.go writes and reads XML through the token interface of Go's
  \<^verbatim>\<open>encoding/xml\<close>: \<^verbatim>\<open>EncodeToken\<close>, \<^verbatim>\<open>EncodeElement\<close>, \<^verbatim>\<open>Token\<close>,
  \<^verbatim>\<open>DecodeElement\<close>. A document is modelled as the list of its tokens; a name is its
  local part, an attribute a name and a value. Escaping and parsing of the text form
  belong to the library and are not modelled.
\<close>

type_synonym Attr = "string \<times> string"

datatype xml_token =
    StartElement string "Attr list"
  | EndElement string
  | CharData string

text \<open>The errors that the functions below return.\<close>

datatype xml_error =
    UnknownTokenType string
  | DuplicateEmitter string
  | DuplicateMutator string
  | UnsupportedType string
  | UnknownType string
  | TagWithNoName
  | UnexpectedEOF
  | NotConsumed string

text \<open>\<^verbatim>\<open>EncodeToken\<close> appends one token; the library refuses a tag with an empty name.\<close>

definition EncodeToken :: "xml_token \<Rightarrow> xml_error + xml_token list" where
  "EncodeToken t =
     (case t of
        StartElement n a \<Rightarrow> if n = [] then Inl TagWithNoName else Inr [t]
      | EndElement n \<Rightarrow> if n = [] then Inl TagWithNoName else Inr [t]
      | CharData s \<Rightarrow> Inr [t])"

text \<open>Two writes in sequence: the first error ends the encoding.\<close>

definition and_then ::
  "xml_error + xml_token list \<Rightarrow> xml_error + xml_token list \<Rightarrow> xml_error + xml_token list" where
  "and_then first second =
     (case first of
        Inl err \<Rightarrow> Inl err
      | Inr written \<Rightarrow>
          (case second of Inl err \<Rightarrow> Inl err | Inr written' \<Rightarrow> Inr (written @ written')))"

text \<open>
  The value that decoding into a struct gives a field tagged \<^verbatim>\<open>name,attr\<close>: the library
  assigns every attribute of that name in turn, so the last one stays, and the field keeps
  its zero value without one.
\<close>

definition attr_value :: "Attr list \<Rightarrow> string \<Rightarrow> string" where
  "attr_value attrs name = (case map_of (rev attrs) name of None \<Rightarrow> [] | Some v \<Rightarrow> v)"

text \<open>
  \<^verbatim>\<open>DecodeElement\<close> and \<^verbatim>\<open>Skip\<close> read up to the end element that matches the start
  element already consumed. \<open>read_element 0\<close> splits the remaining tokens into the body
  of that element and the tokens after its end element; it fails when the input ends first.
\<close>

fun read_element :: "nat \<Rightarrow> xml_token list \<Rightarrow> (xml_token list \<times> xml_token list) option" where
  "read_element depth [] = None"
| "read_element depth (StartElement n a # ts) =
     (case read_element (Suc depth) ts of
        None \<Rightarrow> None
      | Some (body, rest) \<Rightarrow> Some (StartElement n a # body, rest))"
| "read_element depth (EndElement n # ts) =
     (case depth of
        0 \<Rightarrow> Some ([], ts)
      | Suc d \<Rightarrow>
          (case read_element d ts of
             None \<Rightarrow> None
           | Some (body, rest) \<Rightarrow> Some (EndElement n # body, rest)))"
| "read_element depth (CharData s # ts) =
     (case read_element depth ts of
        None \<Rightarrow> None
      | Some (body, rest) \<Rightarrow> Some (CharData s # body, rest))"

text \<open>
  The child elements of a body, each with its name, attributes and own body; character
  data between them is dropped, as decoding into a struct without character fields does.
\<close>

function children :: "xml_token list \<Rightarrow> (string \<times> Attr list \<times> xml_token list) list option" where
  "children [] = Some []"
| "children (StartElement n a # ts) =
     (case read_element 0 ts of
        None \<Rightarrow> None
      | Some (body, rest) \<Rightarrow>
          (case children rest of None \<Rightarrow> None | Some cs \<Rightarrow> Some ((n, a, body) # cs)))"
| "children (EndElement n # ts) = None"
| "children (CharData s # ts) = children ts"
  by pat_completeness auto
termination
proof -
  have shorter: "length rest < length ts"
    if "read_element depth ts = Some (body, rest)" for depth ts body rest
    using that
    by (induction depth ts arbitrary: body rest rule: read_element.induct)
       (fastforce split: option.splits nat.splits)+
  show ?thesis
    by (relation "measure length") (auto dest: shorter)
qed

subsection \<open>Emitters as values\<close>

text \<open>
  The types that implement \<^verbatim>\<open>Emitter\<close> in emitters.go, with their fields, and
  \<^verbatim>\<open>TokenType\<close> itself. A nil interface value in a slice or map is \<open>None\<close>; the map of
  \<^verbatim>\<open>byGroupNamesEmitter\<close> gives \<open>None\<close> for a missing key and \<open>Some None\<close> for a key
  with a nil emitter.
\<close>

datatype emitter =
    TokenTypeEmitter TokenType
  | byGroupsEmitter "emitter option list"
  | byGroupNamesEmitter "string \<Rightarrow> emitter option option"
  | usingEmitter string "Lexer option"
  | usingSelfEmitter string
  | EmitterFunc Emitter

text \<open>Method dispatch: the \<^verbatim>\<open>Emit\<close> of each type, as defined above.\<close>

primrec Emit :: "emitter \<Rightarrow> TokenType \<Rightarrow> Emitter" where
  "Emit (TokenTypeEmitter t) Error = TokenType_Emit t"
| "Emit (byGroupsEmitter Emitters) Error =
     byGroupsEmitter_Emit Error (map (map_option (\<lambda>e. Emit e Error)) Emitters)"
| "Emit (byGroupNamesEmitter Emitters) Error =
     byGroupNamesEmitter_Emit Error (map_option (map_option (\<lambda>e. Emit e Error)) \<circ> Emitters)"
| "Emit (usingEmitter Lexer_name lexer) Error = usingEmitter_Emit Lexer_name lexer"
| "Emit (usingSelfEmitter State_name) Error = usingSelfEmitter_Emit State_name"
| "Emit (EmitterFunc f) Error = f"

text \<open>
  \<^verbatim>\<open>EmitterKind\<close>, for the types that implement \<^verbatim>\<open>SerialisableEmitter\<close>. An
  \<^verbatim>\<open>EmitterFunc\<close> has no such method, so the type assertion in \<^verbatim>\<open>Rule.MarshalXML\<close>
  fails for it. The kind of \<^verbatim>\<open>TokenType\<close> is declared outside the files at hand; the
  header comment of serialise.go shows it as \<^verbatim>\<open><token type="Text"/>\<close>.
\<close>

fun EmitterKind :: "emitter \<Rightarrow> string option" where
  "EmitterKind (TokenTypeEmitter t) = Some ''token''"
| "EmitterKind (byGroupsEmitter Emitters) = Some ''bygroups''"
| "EmitterKind (byGroupNamesEmitter Emitters) = Some ''bygroupnames''"
| "EmitterKind (usingEmitter Lexer_name lexer) = Some ''using''"
| "EmitterKind (usingSelfEmitter State_name) = Some ''usingself''"
| "EmitterKind (EmitterFunc f) = None"

text \<open>The keys of \<^verbatim>\<open>emitterTemplates\<close>: the kind of each template in the list.\<close>

definition emitterTemplates :: "string list" where
  "emitterTemplates = [''bygroups'', ''bygroupnames'', ''using'', ''usingself'', ''token'']"

subsection \<open>TokenType\<close>

text \<open>
  \<^verbatim>\<open>TokenType.MarshalXML\<close>: the attribute \<^verbatim>\<open>type\<close> is appended to those of the start
  element and holds \<^verbatim>\<open>t.String()\<close>. The method \<^verbatim>\<open>String\<close> is generated code outside the
  files at hand, so it is the parameter \<open>String\<close>.
\<close>

definition TokenType_MarshalXML ::
  "(TokenType \<Rightarrow> string) \<Rightarrow> TokenType \<Rightarrow> string \<Rightarrow> Attr list \<Rightarrow> xml_error + xml_token list" where
  "TokenType_MarshalXML String t name attrs =
     and_then (EncodeToken (StartElement name (attrs @ [(''type'', String t)])))
              (EncodeToken (EndElement name))"

text \<open>
  \<^verbatim>\<open>TokenType.UnmarshalXML\<close>: decode the element into \<^verbatim>\<open>xmlTokenType\<close>, then search
  \<^verbatim>\<open>_TokenType_map\<close> for an entry with that text. The table is generated code outside the
  files at hand, so it is the parameter \<open>TokenType_map\<close>: the entries of the Go map in the
  order in which \<^verbatim>\<open>range\<close> visits them, which Go does not fix.
\<close>

definition TokenType_UnmarshalXML ::
  "(TokenType \<times> string) list \<Rightarrow> Attr list \<Rightarrow> xml_token list
     \<Rightarrow> xml_error + (TokenType \<times> xml_token list)" where
  "TokenType_UnmarshalXML TokenType_map attrs tokens =
     (case read_element 0 tokens of
        None \<Rightarrow> Inl UnexpectedEOF
      | Some (body, rest) \<Rightarrow>
          (let el_Type = attr_value attrs ''type''
           in case find (\<lambda>(tt, text). text = el_Type) TokenType_map of
                Some (tt, text) \<Rightarrow> Inr (tt, rest)
              | None \<Rightarrow> Inl (UnknownTokenType el_Type)))"

text \<open>
  Modelled from the spec: "every Token Type has exactly one canonical name; the
  name\<leftrightarrow>value mapping is total and bijective". The table has one entry for each value and
  for each name, and \<open>String\<close> returns the text of the entry.
\<close>

definition canonical_names :: "(TokenType \<times> string) list \<Rightarrow> (TokenType \<Rightarrow> string) \<Rightarrow> bool" where
  "canonical_names TokenType_map String \<longleftrightarrow>
     distinct (map fst TokenType_map) \<and> distinct (map snd TokenType_map) \<and>
     list_all (\<lambda>(tt, text). String tt = text) TokenType_map"

subsection \<open>Encoding emitters\<close>

text \<open>An element: start element, content, end element.\<close>

definition element ::
  "string \<Rightarrow> Attr list \<Rightarrow> xml_error + xml_token list \<Rightarrow> xml_error + xml_token list" where
  "element name attrs content =
     and_then (EncodeToken (StartElement name attrs))
       (and_then content (EncodeToken (EndElement name)))"

text \<open>
  A slice field of interface values: the library writes one element for each entry
  and writes nothing for a nil entry.
\<close>

definition encode_slice ::
  "(xml_error + xml_token list) option list \<Rightarrow> xml_error + xml_token list" where
  "encode_slice elements =
     (case collect (map (\<lambda>el. case el of None \<Rightarrow> Inr [] | Some r \<Rightarrow> r) elements) of
        Inl err \<Rightarrow> Inl err
      | Inr written \<Rightarrow> Inr (concat written))"

text \<open>
  \<^verbatim>\<open>e.EncodeElement(emitter, start)\<close> for each emitter type. \<^verbatim>\<open>TokenType\<close> has its own
  \<^verbatim>\<open>MarshalXML\<close>. The struct types are written by the library from their field tags:
  \<^verbatim>\<open>Emitters []Emitter `xml:"emit"`\<close> gives one child \<^verbatim>\<open>emit\<close> for each non-nil entry,
  written as the entry's own type is; \<^verbatim>\<open>Lexer string `xml:"lexer,attr"`\<close> and
  \<^verbatim>\<open>State string `xml:"state,attr"`\<close> give an attribute; the field \<^verbatim>\<open>lexer\<close> is tagged
  \<^verbatim>\<open>xml:"-"\<close> and is not written. The library has no encoding for a map
  (\<^verbatim>\<open>Emitters map[string]Emitter\<close>) nor for a function value and returns an error.
\<close>

primrec EncodeElement_emitter ::
  "emitter \<Rightarrow> (TokenType \<Rightarrow> string) \<Rightarrow> string \<Rightarrow> xml_error + xml_token list" where
  "EncodeElement_emitter (TokenTypeEmitter t) String name = TokenType_MarshalXML String t name []"
| "EncodeElement_emitter (byGroupsEmitter Emitters) String name =
     element name []
       (encode_slice (map (map_option (\<lambda>e. EncodeElement_emitter e String ''emit'')) Emitters))"
| "EncodeElement_emitter (byGroupNamesEmitter Emitters) String name =
     Inl (UnsupportedType ''map[string]chroma.Emitter'')"
| "EncodeElement_emitter (usingEmitter Lexer_name lexer) String name =
     element name [(''lexer'', Lexer_name)] (Inr [])"
| "EncodeElement_emitter (usingSelfEmitter State_name) String name =
     element name [(''state'', State_name)] (Inr [])"
| "EncodeElement_emitter (EmitterFunc f) String name =
     Inl (UnsupportedType ''chroma.EmitterFunc'')"

subsection \<open>Decoding emitters\<close>

text \<open>
  \<^verbatim>\<open>newFromTemplate\<close> followed by \<^verbatim>\<open>d.DecodeElement(target, &token)\<close>, for each key of
  \<^verbatim>\<open>emitterTemplates\<close>: a new zero value of the template's type is filled from the
  element. For \<^verbatim>\<open>TokenType\<close> the library calls \<^verbatim>\<open>TokenType.UnmarshalXML\<close> on the
  element and checks that it consumed all of it. The struct types are filled from their
  field tags: string fields from the attributes; \<^verbatim>\<open>lexer\<close> stays nil; each child
  \<^verbatim>\<open>emit\<close> appends one entry to \<^verbatim>\<open>[]Emitter\<close>, and since the entry's type is an interface
  the library skips the child and the entry stays nil; a child for the map field is
  an error.
\<close>

definition DecodeElement_emitter ::
  "(TokenType \<times> string) list \<Rightarrow> string \<Rightarrow> Attr list \<Rightarrow> xml_token list
     \<Rightarrow> xml_error + emitter" where
  "DecodeElement_emitter TokenType_map kind attrs body =
     (if kind = ''token'' then
        (case TokenType_UnmarshalXML TokenType_map attrs (body @ [EndElement kind]) of
           Inl err \<Rightarrow> Inl err
         | Inr (tt, left) \<Rightarrow>
             if left = [] then Inr (TokenTypeEmitter tt) else Inl (NotConsumed kind))
      else
        (case children body of
           None \<Rightarrow> Inl UnexpectedEOF
         | Some cs \<Rightarrow>
             (if kind = ''using'' then
                Inr (usingEmitter (attr_value attrs ''lexer'') None)
              else if kind = ''usingself'' then
                Inr (usingSelfEmitter (attr_value attrs ''state''))
              else if kind = ''bygroups'' then
                Inr (byGroupsEmitter
                       (map (\<lambda>c. None) (filter (\<lambda>(n, a, b). n = ''emit'') cs)))
              else if filter (\<lambda>(n, a, b). n = ''emitters'') cs \<noteq> [] then
                Inl (UnknownType ''map[string]chroma.Emitter'')
              else Inr (byGroupNamesEmitter Map.empty))))"

subsection \<open>Mutators\<close>

text \<open>
  The mutator types, \<^verbatim>\<open>MutatorKind\<close> and the field tags of the mutator structs are
  declared outside the files at hand, so the type \<open>'m\<close> of non-nil \<^verbatim>\<open>Mutator\<close> values is a
  parameter, together with: the kind of a mutator that implements
  \<^verbatim>\<open>SerialisableMutator\<close> (\<open>None\<close> for one that does not);
  \<^verbatim>\<open>e.EncodeElement(mutator, start)\<close>; and, for each key of \<^verbatim>\<open>mutatorTemplates\<close>, the
  decoding of an element, given by its attributes and body, into a new value of the
  template's type.
\<close>

record 'm MutatorDecls =
  MutatorKind :: "'m \<Rightarrow> string option"
  EncodeElement_mutator :: "'m \<Rightarrow> string \<Rightarrow> xml_error + xml_token list"
  mutatorTemplates :: "string \<Rightarrow> (Attr list \<Rightarrow> xml_token list \<Rightarrow> xml_error + 'm) option"

subsection \<open>Rule\<close>

record 'm Rule =
  Pattern :: string
  Type :: "emitter option"
  Mutator :: "'m option"

text \<open>
  \<^verbatim>\<open>Rule.MarshalXML\<close>: the start element with the pattern unless it is empty, the emitter
  if it is not nil and is a \<^verbatim>\<open>SerialisableEmitter\<close>, the mutator if it is not nil and
  is a \<^verbatim>\<open>SerialisableMutator\<close>, the end element.
\<close>

definition Rule_MarshalXML ::
  "'m MutatorDecls \<Rightarrow> (TokenType \<Rightarrow> string) \<Rightarrow> 'm Rule \<Rightarrow> xml_error + xml_token list" where
  "Rule_MarshalXML M String r =
     (let start_Attr = (if Pattern r \<noteq> [] then [(''pattern'', Pattern r)] else [])
      in and_then (EncodeToken (StartElement ''rule'' start_Attr))
          (and_then
            (case Type r of
               None \<Rightarrow> Inr []
             | Some emitter \<Rightarrow>
                 (case EmitterKind emitter of
                    None \<Rightarrow> Inr []
                  | Some kind \<Rightarrow> EncodeElement_emitter emitter String kind))
            (and_then
              (case Mutator r of
                 None \<Rightarrow> Inr []
               | Some mutator \<Rightarrow>
                   (case MutatorKind M mutator of
                      None \<Rightarrow> Inr []
                    | Some kind \<Rightarrow> EncodeElement_mutator M mutator kind))
              (EncodeToken (EndElement ''rule'')))))"

text \<open>
  The loop of \<^verbatim>\<open>Rule.UnmarshalXML\<close> over \<^verbatim>\<open>d.Token()\<close>. A start element whose name is
  neither an emitter kind nor a mutator kind is passed over and the loop goes on with
  the tokens inside it; the first end element ends the loop; the end of the input is the
  error of \<^verbatim>\<open>d.Token()\<close>.
\<close>

function Rule_UnmarshalXML_loop ::
  "'m MutatorDecls \<Rightarrow> (TokenType \<times> string) list \<Rightarrow> 'm Rule \<Rightarrow> xml_token list
     \<Rightarrow> xml_error + ('m Rule \<times> xml_token list)" where
  "Rule_UnmarshalXML_loop M TokenType_map r [] = Inl UnexpectedEOF"
| "Rule_UnmarshalXML_loop M TokenType_map r (StartElement kind attrs # tokens) =
     (if kind \<in> set emitterTemplates then
        (if Type r \<noteq> None then Inl (DuplicateEmitter kind)
         else
           (case read_element 0 tokens of
              None \<Rightarrow> Inl UnexpectedEOF
            | Some (body, rest) \<Rightarrow>
                (case DecodeElement_emitter TokenType_map kind attrs body of
                   Inl err \<Rightarrow> Inl err
                 | Inr value \<Rightarrow>
                     Rule_UnmarshalXML_loop M TokenType_map (r\<lparr>Type := Some value\<rparr>) rest)))
      else
        (case mutatorTemplates M kind of
           Some decode \<Rightarrow>
             (if Mutator r \<noteq> None then Inl (DuplicateMutator kind)
              else
                (case read_element 0 tokens of
                   None \<Rightarrow> Inl UnexpectedEOF
                 | Some (body, rest) \<Rightarrow>
                     (case decode attrs body of
                        Inl err \<Rightarrow> Inl err
                      | Inr value \<Rightarrow>
                          Rule_UnmarshalXML_loop M TokenType_map (r\<lparr>Mutator := Some value\<rparr>)
                            rest)))
         | None \<Rightarrow> Rule_UnmarshalXML_loop M TokenType_map r tokens))"
| "Rule_UnmarshalXML_loop M TokenType_map r (EndElement n # tokens) = Inr (r, tokens)"
| "Rule_UnmarshalXML_loop M TokenType_map r (CharData s # tokens) =
     Rule_UnmarshalXML_loop M TokenType_map r tokens"
  by pat_completeness auto
termination
proof -
  have shorter: "length rest < length ts"
    if "read_element depth ts = Some (body, rest)" for depth ts body rest
    using that
    by (induction depth ts arbitrary: body rest rule: read_element.induct)
       (fastforce split: option.splits nat.splits)+
  show ?thesis
    by (relation "measure (\<lambda>(M, TokenType_map, r, tokens). length tokens)")
       (auto dest: shorter)
qed

text \<open>\<^verbatim>\<open>Rule.UnmarshalXML\<close>: the first attribute named \<^verbatim>\<open>pattern\<close>, then the loop.\<close>

definition Rule_UnmarshalXML ::
  "'m MutatorDecls \<Rightarrow> (TokenType \<times> string) list \<Rightarrow> 'm Rule \<Rightarrow> Attr list \<Rightarrow> xml_token list
     \<Rightarrow> xml_error + ('m Rule \<times> xml_token list)" where
  "Rule_UnmarshalXML M TokenType_map r start_Attr tokens =
     Rule_UnmarshalXML_loop M TokenType_map
       (case map_of start_Attr ''pattern'' of None \<Rightarrow> r | Some v \<Rightarrow> r\<lparr>Pattern := v\<rparr>)
       tokens"

subsection \<open>Rules\<close>

definition encode_all :: "(xml_error + xml_token list) list \<Rightarrow> xml_error + xml_token list" where
  "encode_all elements =
     (case collect elements of Inl err \<Rightarrow> Inl err | Inr written \<Rightarrow> Inr (concat written))"

text \<open>
  \<^verbatim>\<open>Rules.MarshalXML\<close>. \<open>entries\<close> are the entries of the Go map in the order in which
  \<^verbatim>\<open>range\<close> visits them. The library writes \<^verbatim>\<open>xmlRules\<close> and \<^verbatim>\<open>xmlRuleState\<close> from
  their field tags and each \<^verbatim>\<open>Rule\<close> through \<^verbatim>\<open>Rule.MarshalXML\<close>.
\<close>

definition Rules_MarshalXML ::
  "'m MutatorDecls \<Rightarrow> (TokenType \<Rightarrow> string) \<Rightarrow> (string \<times> 'm Rule list) list
     \<Rightarrow> xml_error + xml_token list" where
  "Rules_MarshalXML M String entries =
     element ''rules'' []
       (encode_all
          (map (\<lambda>(state, rules).
                  element ''state'' [(''name'', state)]
                    (encode_all (map (Rule_MarshalXML M String) rules)))
               entries))"

text \<open>
  Decoding one \<^verbatim>\<open>rule\<close> child of a state into a new \<^verbatim>\<open>Rule\<close>: the library lets
  \<^verbatim>\<open>Rule.UnmarshalXML\<close> read up to the end element of the child and fails if it returns
  before.
\<close>

definition DecodeElement_Rule ::
  "'m MutatorDecls \<Rightarrow> (TokenType \<times> string) list \<Rightarrow> Attr list \<Rightarrow> xml_token list
     \<Rightarrow> xml_error + 'm Rule" where
  "DecodeElement_Rule M TokenType_map attrs body =
     (case Rule_UnmarshalXML M TokenType_map \<lparr>Pattern = [], Type = None, Mutator = None\<rparr> attrs
             (body @ [EndElement ''rule'']) of
        Inl err \<Rightarrow> Inl err
      | Inr (r, left) \<Rightarrow> if left = [] then Inr r else Inl (NotConsumed ''rule''))"

text \<open>\<^verbatim>\<open>xmlRuleState\<close>: the attribute \<^verbatim>\<open>name\<close> and the children \<^verbatim>\<open>rule\<close>, in order.\<close>

definition DecodeElement_xmlRuleState ::
  "'m MutatorDecls \<Rightarrow> (TokenType \<times> string) list \<Rightarrow> Attr list \<Rightarrow> xml_token list
     \<Rightarrow> xml_error + (string \<times> 'm Rule list)" where
  "DecodeElement_xmlRuleState M TokenType_map attrs body =
     (case children body of
        None \<Rightarrow> Inl UnexpectedEOF
      | Some cs \<Rightarrow>
          (case collect (map (\<lambda>(n, a, b). DecodeElement_Rule M TokenType_map a b)
                           (filter (\<lambda>(n, a, b). n = ''rule'') cs)) of
             Inl err \<Rightarrow> Inl err
           | Inr rules \<Rightarrow> Inr (attr_value attrs ''name'', rules)))"

text \<open>
  \<^verbatim>\<open>Rules.UnmarshalXML\<close>: decode \<^verbatim>\<open>xmlRules\<close> from the children \<^verbatim>\<open>state\<close>, then
  store each state's rules under its name in the map \<open>r\<close>.
\<close>

definition Rules_UnmarshalXML ::
  "'m MutatorDecls \<Rightarrow> (TokenType \<times> string) list \<Rightarrow> (string \<rightharpoonup> 'm Rule list) \<Rightarrow> Attr list
     \<Rightarrow> xml_token list \<Rightarrow> xml_error + ((string \<rightharpoonup> 'm Rule list) \<times> xml_token list)" where
  "Rules_UnmarshalXML M TokenType_map r start_Attr tokens =
     (case read_element 0 tokens of
        None \<Rightarrow> Inl UnexpectedEOF
      | Some (body, rest) \<Rightarrow>
          (case children body of
             None \<Rightarrow> Inl UnexpectedEOF
           | Some cs \<Rightarrow>
               (case collect (map (\<lambda>(n, a, b). DecodeElement_xmlRuleState M TokenType_map a b)
                                (filter (\<lambda>(n, a, b). n = ''state'') cs)) of
                  Inl err \<Rightarrow> Inl err
                | Inr States \<Rightarrow>
                    Inr (fold (\<lambda>(name, rules) r. r(name \<mapsto> rules)) States r, rest))))"

text \<open>
  \<^verbatim>\<open>xml.Unmarshal(data, &rules)\<close> with an empty map: the library looks for the first
  start element and calls \<^verbatim>\<open>Rules.UnmarshalXML\<close>.
\<close>

fun Unmarshal_Rules ::
  "'m MutatorDecls \<Rightarrow> (TokenType \<times> string) list \<Rightarrow> xml_token list
     \<Rightarrow> xml_error + (string \<rightharpoonup> 'm Rule list)" where
  "Unmarshal_Rules M TokenType_map [] = Inl UnexpectedEOF"
| "Unmarshal_Rules M TokenType_map (StartElement n a # tokens) =
     (case Rules_UnmarshalXML M TokenType_map Map.empty a tokens of
        Inl err \<Rightarrow> Inl err
      | Inr (r, left) \<Rightarrow> Inr r)"
| "Unmarshal_Rules M TokenType_map (t # tokens) = Unmarshal_Rules M TokenType_map tokens"

text \<open>Encoding a rule table and decoding the result.\<close>

definition roundtrip ::
  "'m MutatorDecls \<Rightarrow> (TokenType \<times> string) list \<Rightarrow> (TokenType \<Rightarrow> string)
     \<Rightarrow> (string \<times> 'm Rule list) list \<Rightarrow> xml_error + (string \<rightharpoonup> 'm Rule list)" where
  "roundtrip M TokenType_map String entries =
     (case Rules_MarshalXML M String entries of
        Inl err \<Rightarrow> Inl err
      | Inr tokens \<Rightarrow> Unmarshal_Rules M TokenType_map tokens)"

section \<open>Example values\<close>

definition example_lexer :: Lexer where
  "example_lexer = \<lparr>Tokenise = (\<lambda>opts text. Inr [Token 7 text])\<rparr>"

definition failing_lexer :: Lexer where
  "failing_lexer = \<lparr>Tokenise = (\<lambda>opts text. Inl ''no root state'')\<rparr>"

definition example_state :: LexerState where
  "example_state =
     \<lparr>Lexer = example_lexer,
      Rules = [''root'' \<mapsto> [\<lparr>Regexp = \<lparr>GroupNameFromNumber =
                 (\<lambda>i. if i = 1 then ''key'' else if i = 2 then ''val'' else [])\<rparr>\<rparr>]],
      State = ''root'', Rule = 0,
      NamedGroups = [''0'' \<mapsto> ''a=b'', ''key'' \<mapsto> ''a'', ''val'' \<mapsto> ''b'']\<rparr>"

definition example_resolver :: "string \<Rightarrow> Lexer option" where
  "example_resolver name = (if name = ''go'' then Some example_lexer else None)"

definition failing_state :: LexerState where
  "failing_state = example_state\<lparr>Lexer := failing_lexer\<rparr>"

text \<open>
  A table of token types and their names, and the two mutators whose XML form the header
  comment of serialise.go shows (\<^verbatim>\<open><push state="String"/>\<close>,
  \<^verbatim>\<open><include state="String"/>\<close>) beside a mutator that is a plain function.
\<close>

definition example_TokenType_map :: "(TokenType \<times> string) list" where
  "example_TokenType_map =
     [(-1, ''Error''), (1000, ''Keyword''), (3100, ''LiteralString''), (8000, ''Text''),
      (8001, ''TextWhitespace'')]"

definition example_String :: "TokenType \<Rightarrow> string" where
  "example_String t =
     (case map_of example_TokenType_map t of Some text \<Rightarrow> text | None \<Rightarrow> ''TokenType(?)'')"

datatype example_mutator = Push string | Include string | MutatorFunc

definition example_mutators :: "example_mutator MutatorDecls" where
  "example_mutators =
     \<lparr>MutatorKind =
        (\<lambda>m. case m of Push s \<Rightarrow> Some ''push'' | Include s \<Rightarrow> Some ''include''
              | MutatorFunc \<Rightarrow> None),
      EncodeElement_mutator =
        (\<lambda>m name. case m of
             Push s \<Rightarrow> element name [(''state'', s)] (Inr [])
           | Include s \<Rightarrow> element name [(''state'', s)] (Inr [])
           | MutatorFunc \<Rightarrow> Inl (UnsupportedType ''chroma.MutatorFunc'')),
      mutatorTemplates =
        (\<lambda>kind. if kind = ''push'' then Some (\<lambda>attrs body. Inr (Push (attr_value attrs ''state'')))
                else if kind = ''include''
                then Some (\<lambda>attrs body. Inr (Include (attr_value attrs ''state'')))
                else None)\<rparr>"

definition bygroups_rule :: "example_mutator Rule" where
  "bygroups_rule =
     \<lparr>Pattern = ''([a-z]+)( +)'',
      Type = Some (byGroupsEmitter [Some (TokenTypeEmitter 1000), Some (TokenTypeEmitter 8001)]),
      Mutator = None\<rparr>"

definition using_rule :: "example_mutator Rule" where
  "using_rule =
     \<lparr>Pattern = ''<[^>]+>'', Type = Some (usingEmitter ''html'' (Some example_lexer)),
      Mutator = None\<rparr>"

definition bygroupnames_rule :: "example_mutator Rule" where
  "bygroupnames_rule =
     \<lparr>Pattern = ''(?<key>[a-z]+)'',
      Type = Some (byGroupNamesEmitter [''key'' \<mapsto> Some (TokenTypeEmitter 1000)]),
      Mutator = None\<rparr>"

definition string_rule :: "example_mutator Rule" where
  "string_rule =
     \<lparr>Pattern = [CHR 0x22], Type = Some (TokenTypeEmitter 3100), Mutator = Some (Push ''String'')\<rparr>"

definition function_rule :: "example_mutator Rule" where
  "function_rule =
     \<lparr>Pattern = ''[a-z]+'', Type = Some (EmitterFunc (TokenType_Emit 1000)),
      Mutator = Some (Push ''String'')\<rparr>"

section \<open>Properties of emitters.go\<close>

subsection \<open>Loops as lists of positions\<close>

lemma Concaterator_Some: "Concaterator (map Some its) = Inr (concat its)"
  by (auto simp: Concaterator_def comp_def)

lemma byGroups_loop_concat:
  "i + length gs = length ems \<Longrightarrow>
   (case byGroups_loop ems st i gs acc of Inl p \<Rightarrow> Inl p | Inr its \<Rightarrow> Inr (concat its)) =
   (case collect (map2 (group_tokens st) (drop i ems) gs) of
      Inl p \<Rightarrow> Inl p
    | Inr ts \<Rightarrow> Inr (concat acc @ concat ts))"
proof (induction gs arbitrary: i acc)
  case Nil
  then show ?case by simp
next
  case (Cons g gs)
  then have i: "i < length ems" and step: "Suc i + length gs = length ems" by simp_all
  have d: "drop i ems = ems ! i # drop (Suc i) ems"
    using i by (simp add: Cons_nth_drop_Suc)
  show ?case
  proof (cases "ems ! i")
    case None
    then show ?thesis
      using i d Cons.IH [OF step, of acc] by (simp add: group_tokens_def split: sum.splits)
  next
    case (Some e)
    show ?thesis
    proof (cases "e [g] st")
      case (Inl p)
      then show ?thesis using i d Some by (simp add: group_tokens_def)
    next
      case (Inr it)
      then show ?thesis
        using i d Some Cons.IH [OF step, of "acc @ [it]"]
        by (simp add: group_tokens_def split: sum.splits)
    qed
  qed
qed

lemma drop_Suc_Cons_eq: "drop n xs = g # gs \<Longrightarrow> drop (Suc n) xs = gs"
  by (metis drop_Suc list.sel(3) tl_drop)

lemma drop_Cons_nth: "drop n xs = g # gs \<Longrightarrow> n < length xs \<and> xs ! n = g"
  by (metis drop_all list.distinct(1) not_le nth_via_drop)

lemma UsingByGroup_loop_eq:
  "length pre = i \<Longrightarrow> i + length gs = length ems \<Longrightarrow> drop (Suc i) groups = gs \<Longrightarrow>
   UsingByGroup_loop sub cg ems groups st i gs (pre @ replicate (length gs) None) =
   (case collect (map (\<lambda>(j, eo, g). using_slot sub cg st j eo g)
                   (zip [i..<i + length gs] (zip (drop i ems) gs))) of
      Inl p \<Rightarrow> Inl p
    | Inr vs \<Rightarrow> Inr (pre @ vs))"
proof (induction gs arbitrary: i pre)
  case Nil
  then show ?case by simp
next
  case (Cons g gs)
  from Cons.prems have i: "i < length ems" and step: "Suc i + length gs = length ems"
    by simp_all
  have d: "drop i ems = ems ! i # drop (Suc i) ems"
    using i by (simp add: Cons_nth_drop_Suc)
  have gs: "drop (Suc (Suc i)) groups = gs"
    using Cons.prems(3) by (rule drop_Suc_Cons_eq)
  have g: "Suc i < length groups" "groups ! Suc i = g"
    using drop_Cons_nth [OF Cons.prems(3)] by simp_all
  have up: "[i..<i + Suc (length gs)] = i # [Suc i..<Suc i + length gs]"
    by (simp add: upt_rec)
  have upd: "\<And>v. (pre @ replicate (Suc (length gs)) None)[i := v] =
               (pre @ [v]) @ replicate (length gs) None"
    using Cons.prems(1) by (simp add: list_update_append)
  have keep: "pre @ replicate (Suc (length gs)) None = (pre @ [None]) @ replicate (length gs) None"
    by simp
  have len: "\<And>v. length (pre @ [v]) = Suc i" using Cons.prems(1) by simp
  note IH = Cons.IH [OF len step gs]
  show ?case
  proof (cases "int i = cg - 1 \<and> sub \<noteq> None")
    case True
    then obtain l where l: "sub = Some l" and cg: "cg = int i + 1" by auto
    have rd: "groups ! nat cg = g" "0 \<le> cg" "cg < int (length groups)"
      using g cg by (simp_all add: nat_add_distrib)
    show ?thesis
    proof (cases "Tokenise l None g")
      case (Inl err)
      then show ?thesis
        using l cg rd d up by (simp add: using_slot_def del: replicate_Suc upt_Suc)
    next
      case (Inr it)
      then show ?thesis
        using l cg rd d up IH [of "Some it"] upd [of "Some it"]
        by (simp add: using_slot_def del: replicate_Suc upt_Suc append_assoc split: sum.splits)
    qed
  next
    case False
    then have sel: "(if int i = cg - 1 then sub else None) = None" by auto
    show ?thesis
    proof (cases "ems ! i")
      case None
      then show ?thesis
        using sel i d up IH [of None] keep
        by (simp add: using_slot_def group_iterator_def
                 del: replicate_Suc upt_Suc append_assoc split: sum.splits)
    next
      case (Some e)
      show ?thesis
      proof (cases "e [g] st")
        case (Inl p)
        then show ?thesis
          using sel i d up Some
          by (simp add: using_slot_def group_iterator_def del: replicate_Suc upt_Suc)
      next
        case (Inr it)
        then show ?thesis
          using sel i d up Some IH [of "Some it"] upd [of "Some it"]
          by (simp add: using_slot_def group_iterator_def
                   del: replicate_Suc upt_Suc append_assoc split: sum.splits)
      qed
    qed
  qed
qed

lemma using_slots_no_sublexer:
  "length ems = length caps \<Longrightarrow>
   map (\<lambda>(j, eo, g). using_slot None cg st j eo g) (zip [0..<length caps] (zip ems caps)) =
   map2 (group_iterator st) ems caps"
  by (rule nth_equalityI) (simp_all add: using_slot_def)

lemma using_slots_sublexer:
  "length ems = length caps \<Longrightarrow> 1 \<le> cg \<Longrightarrow> cg \<le> int (length caps) \<Longrightarrow>
   Tokenise l None (caps ! nat (cg - 1)) = Inr toks \<Longrightarrow>
   map (\<lambda>(j, eo, g). using_slot (Some l) cg st j eo g) (zip [0..<length caps] (zip ems caps)) =
   (map2 (group_iterator st) ems caps)[nat (cg - 1) := Inr (Some toks)]"
proof (rule nth_equalityI)
  fix j
  assume a: "length ems = length caps" "1 \<le> cg" "cg \<le> int (length caps)"
    "Tokenise l None (caps ! nat (cg - 1)) = Inr toks"
  assume "j < length (map (\<lambda>(j, eo, g). using_slot (Some l) cg st j eo g)
                       (zip [0..<length caps] (zip ems caps)))"
  then have j: "j < length caps" using a(1) by simp
  show "map (\<lambda>(j, eo, g). using_slot (Some l) cg st j eo g)
          (zip [0..<length caps] (zip ems caps)) ! j =
        (map2 (group_iterator st) ems caps)[nat (cg - 1) := Inr (Some toks)] ! j"
  proof (cases "int j = cg - 1")
    case True
    then have "nat (cg - 1) = j" by simp
    then show ?thesis using True j a by (simp add: using_slot_def)
  next
    case False
    then have "nat (cg - 1) \<noteq> j" using a(2) by auto
    then show ?thesis using False j a by (simp add: using_slot_def)
  qed
qed simp




subsection \<open>The claims\<close>

text \<open>
  Claim C2. A match is the whole match followed by its capture groups. When the number of
  emitters given to the by-groups emitter differs from the number of capture groups,
  \<^verbatim>\<open>Emit\<close> does not panic and returns exactly one token, of category \<^verbatim>\<open>Error\<close>, whose
  text is the whole match.
\<close>

theorem byGroups_mismatch_single_Error_token:
  "length Emitters \<noteq> length caps \<Longrightarrow>
   byGroupsEmitter_Emit Error Emitters (whole # caps) state = Inr [Token Error whole]"
  by (simp add: byGroupsEmitter_Emit_def TokenType_Emit_def Concaterator_def)

theorem byGroups_mismatch_single_Error_token_witness:
  "length [Some (TokenType_Emit 3)] \<noteq> length [''a'', ''b''] \<and>
   byGroupsEmitter_Emit (-1) [Some (TokenType_Emit 3)] [''ab'', ''a'', ''b''] example_state
     = Inr [Token (-1) ''ab'']"
  using byGroups_mismatch_single_Error_token
    [of "[Some (TokenType_Emit 3)]" "[''a'', ''b'']" "-1" "''ab''" example_state]
  by simp

text \<open>
  Claim C3. When the by-groups emitter has as many emitters as the match has capture
  groups, emitter \<open>i\<close> is applied to capture group \<open>i\<close> alone, a group whose emitter is
  nil contributes nothing, and the tokens are concatenated in group order. A panic of an
  emitter is the panic of the whole call.
\<close>

theorem byGroups_applies_emitter_i_to_group_i:
  "length Emitters = length caps \<Longrightarrow>
   byGroupsEmitter_Emit Error Emitters (whole # caps) state =
     (case collect (map2 (group_tokens state) Emitters caps) of
        Inl p \<Rightarrow> Inl p
      | Inr ts \<Rightarrow> Inr (concat ts))"
  using byGroups_loop_concat [of 0 caps Emitters state "[]"]
  by (simp add: byGroupsEmitter_Emit_def Concaterator_Some split: sum.splits)

theorem byGroups_applies_emitter_i_to_group_i_witness:
  "length [Some (TokenType_Emit 3), None, Some (TokenType_Emit 4)] = length [''a'', ''b'', ''c''] \<and>
   byGroupsEmitter_Emit (-1) [Some (TokenType_Emit 3), None, Some (TokenType_Emit 4)]
     [''abc'', ''a'', ''b'', ''c''] example_state = Inr [Token 3 ''a'', Token 4 ''c'']"
  using byGroups_applies_emitter_i_to_group_i
    [of "[Some (TokenType_Emit 3), None, Some (TokenType_Emit 4)]" "[''a'', ''b'', ''c'']"
        "-1" "''abc''" example_state]
  by (simp add: group_tokens_def TokenType_Emit_def)



text \<open>
  Claim C5. When the number of emitters given to \<^verbatim>\<open>UsingByGroup\<close> differs from the
  number of capture groups, the call panics before any sublexer or emitter runs and
  returns no tokens; the by-groups emitter returns an \<^verbatim>\<open>Error\<close> token in the same
  situation.
\<close>

theorem UsingByGroup_mismatch_panics:
  "int (length emitters) \<noteq> int (length groups) - 1 \<Longrightarrow>
   UsingByGroup sublexerGetFunc sublexerNameGroup codeGroup emitters groups state =
     Inl (PanicString
       ''UsingByGroup expects number of emitters to be the same as len(groups)-1'') \<and>
   (groups \<noteq> [] \<longrightarrow>
      byGroupsEmitter_Emit Error emitters groups state = Inr [Token Error (hd groups)])"
  by (cases groups)
     (simp_all add: UsingByGroup_def byGroupsEmitter_Emit_def TokenType_Emit_def
        Concaterator_def)

theorem UsingByGroup_mismatch_panics_witness:
  "int (length [Some (TokenType_Emit 3)]) \<noteq> int (length [''ab'', ''a'', ''b'']) - 1 \<and>
   UsingByGroup (\<lambda>name. None) 1 2 [Some (TokenType_Emit 3)] [''ab'', ''a'', ''b'']
     example_state =
     Inl (PanicString
       ''UsingByGroup expects number of emitters to be the same as len(groups)-1'') \<and>
   byGroupsEmitter_Emit (-1) [Some (TokenType_Emit 3)] [''ab'', ''a'', ''b''] example_state =
     Inr [Token (-1) ''ab'']"
  using UsingByGroup_mismatch_panics
    [of "[Some (TokenType_Emit 3)]" "[''ab'', ''a'', ''b'']" "\<lambda>name. None" 1 2
        example_state "-1"]
  by simp

text \<open>
  \<^verbatim>\<open>UsingByGroup\<close> called with as many emitters as capture groups and a name group
  inside the match, position by position. Without a lexer for the captured name every
  position holds the iterator of its own emitter, a nil iterator where the emitter is
  nil. With a lexer that tokenises the code group's text, these tokens take the code
  group's position. The slice, nil iterators included, goes to \<^verbatim>\<open>Concaterator\<close>.
\<close>

lemma UsingByGroup_sublexer_or_fallback:
  assumes "length emitters = length caps"
    and "0 \<le> sublexerNameGroup" and "sublexerNameGroup \<le> int (length caps)"
  shows
    "(sublexerGetFunc ((whole # caps) ! nat sublexerNameGroup) = None \<longrightarrow>
        UsingByGroup sublexerGetFunc sublexerNameGroup codeGroup emitters (whole # caps) state =
          (case collect (map2 (group_iterator state) emitters caps) of
             Inl p \<Rightarrow> Inl p
           | Inr iterators \<Rightarrow> Concaterator iterators)) \<and>
     (\<forall>l toks. sublexerGetFunc ((whole # caps) ! nat sublexerNameGroup) = Some l \<and>
        1 \<le> codeGroup \<and> codeGroup \<le> int (length caps) \<and>
        Tokenise l None (caps ! nat (codeGroup - 1)) = Inr toks \<longrightarrow>
        UsingByGroup sublexerGetFunc sublexerNameGroup codeGroup emitters (whole # caps) state =
          (case collect ((map2 (group_iterator state) emitters caps)
                           [nat (codeGroup - 1) := Inr (Some toks)]) of
             Inl p \<Rightarrow> Inl p
           | Inr iterators \<Rightarrow> Concaterator iterators))"
proof -
  have loop: "\<And>sub. UsingByGroup_loop sub codeGroup emitters (whole # caps) state 0 caps
                 (replicate (length caps) None) =
               collect (map (\<lambda>(j, eo, g). using_slot sub codeGroup state j eo g)
                          (zip [0..<length caps] (zip emitters caps)))"
    using UsingByGroup_loop_eq [of "[]" 0 caps emitters "whole # caps" _ codeGroup state]
      assms(1)
    by (simp split: sum.splits)
  show ?thesis
    using assms loop using_slots_no_sublexer [OF assms(1), of codeGroup state]
      using_slots_sublexer [OF assms(1), of codeGroup _ _ state]
    by (auto simp: UsingByGroup_def)
qed

lemma UsingByGroup_sublexer_or_fallback_example:
  "UsingByGroup example_resolver 1 2 [Some (TokenType_Emit 3), Some (TokenType_Emit 4)]
     [''go x'', ''go'', ''x''] example_state = Inr [Token 3 ''go'', Token 7 ''x''] \<and>
   UsingByGroup example_resolver 1 2 [Some (TokenType_Emit 3), Some (TokenType_Emit 4)]
     [''zz x'', ''zz'', ''x''] example_state = Inr [Token 3 ''zz'', Token 4 ''x'']"
proof -
  have len: "length [Some (TokenType_Emit 3), Some (TokenType_Emit 4)] = length [''go'', ''x'']"
    "length [Some (TokenType_Emit 3), Some (TokenType_Emit 4)] = length [''zz'', ''x'']"
    by simp_all
  have ng: "(0::int) \<le> 1" "(1::int) \<le> int (length [''go'', ''x''])"
    "(1::int) \<le> int (length [''zz'', ''x''])"
    by simp_all
  show ?thesis
    using UsingByGroup_sublexer_or_fallback
        [OF len(1) ng(1) ng(2), of example_resolver "''go x''" 2 example_state]
      UsingByGroup_sublexer_or_fallback
        [OF len(2) ng(1) ng(3), of example_resolver "''zz x''" 2 example_state]
    by (simp add: example_resolver_def example_lexer_def group_iterator_def
          TokenType_Emit_def Concaterator_def)
qed

lemma collect_map_Some:
  "collect (map (map_sum id Some) xs) = map_sum id (map Some) (collect xs)"
  by (induction xs) (auto split: sum.splits)

lemma group_iterator_tokens:
  "eo \<noteq> None \<Longrightarrow> group_iterator st eo g = map_sum id Some (group_tokens st eo g)"
  by (auto simp: group_iterator_def group_tokens_def split: sum.splits)

lemma group_iterators_tokens:
  "None \<notin> set ems \<Longrightarrow>
   map2 (group_iterator st) ems caps = map (map_sum id Some) (map2 (group_tokens st) ems caps)"
proof (rule map_cong [OF refl, of _ _ _, THEN trans])
  fix p assume p: "p \<in> set (zip ems caps)" and n: "None \<notin> set ems"
  obtain eo g where pg: "p = (eo, g)" by (cases p)
  then have mem: "eo \<in> set ems" using p by (auto dest: set_zip_leftD)
  have "eo \<noteq> None"
  proof
    assume "eo = None"
    with mem n show False by simp
  qed
  then show "(case p of (x, xa) \<Rightarrow> group_iterator st x xa) =
             (map_sum id Some \<circ> (\<lambda>(x, y). group_tokens st x y)) p"
    by (simp add: pg group_iterator_tokens)
qed simp

text \<open>
  When no emitter is nil the call does what by-groups does, except at the code group:
  it returns the tokens of the groups in order, with the sublexer's tokens at the code
  group when there is a sublexer, and it panics only where an emitter panics.
\<close>

lemma UsingByGroup_emits_without_nil_emitter:
  assumes "length emitters = length caps"
    and "0 \<le> sublexerNameGroup" and "sublexerNameGroup \<le> int (length caps)"
    and "None \<notin> set emitters"
  shows
    "(sublexerGetFunc ((whole # caps) ! nat sublexerNameGroup) = None \<longrightarrow>
        UsingByGroup sublexerGetFunc sublexerNameGroup codeGroup emitters (whole # caps) state =
          (case collect (map2 (group_tokens state) emitters caps) of
             Inl p \<Rightarrow> Inl p
           | Inr ts \<Rightarrow> Inr (concat ts))) \<and>
     (\<forall>l toks. sublexerGetFunc ((whole # caps) ! nat sublexerNameGroup) = Some l \<and>
        1 \<le> codeGroup \<and> codeGroup \<le> int (length caps) \<and>
        Tokenise l None (caps ! nat (codeGroup - 1)) = Inr toks \<longrightarrow>
        UsingByGroup sublexerGetFunc sublexerNameGroup codeGroup emitters (whole # caps) state =
          (case collect ((map2 (group_tokens state) emitters caps)
                           [nat (codeGroup - 1) := Inr toks]) of
             Inl p \<Rightarrow> Inl p
           | Inr ts \<Rightarrow> Inr (concat ts)))"
proof -
  note general = UsingByGroup_sublexer_or_fallback [OF assms(1-3),
    of sublexerGetFunc whole codeGroup state]
  have its: "map2 (group_iterator state) emitters caps =
      map (map_sum id Some) (map2 (group_tokens state) emitters caps)"
    using assms(4) by (rule group_iterators_tokens)
  have upd: "\<And>k toks. (map (map_sum id Some) (map2 (group_tokens state) emitters caps))
                 [k := Inr (Some toks)] =
               map (map_sum id Some) ((map2 (group_tokens state) emitters caps)[k := Inr toks])"
    by (simp add: map_update)
  have conc: "\<And>xs. (case collect (map (map_sum id Some) xs) of
                  Inl p \<Rightarrow> Inl p | Inr iterators \<Rightarrow> Concaterator iterators) =
               (case collect xs of Inl p \<Rightarrow> Inl p | Inr ts \<Rightarrow> Inr (concat ts))"
    by (simp add: collect_map_Some Concaterator_Some split: sum.splits)
  show ?thesis
    using general unfolding its upd conc .
qed

text \<open>
  Claim C6. The claim fails where an emitter that the sublexer does not replace is nil.
  \<^verbatim>\<open>UsingByGroup\<close> tests \<^verbatim>\<open>emitters[i] != nil\<close> as by-groups does, but its slice is made
  with \<^verbatim>\<open>len(groups)-1\<close> entries instead of being appended to, so the position of a nil
  emitter keeps a nil iterator and the call panics instead of returning tokens: with a
  lexer for the captured name and a nil emitter for the name group, and without a lexer
  and a nil emitter for the code group. The by-groups emitter skips the same nil emitter.
\<close>

theorem UsingByGroup_nil_emitter_panics:
  "UsingByGroup example_resolver 1 2 [None, Some (TokenType_Emit 4)]
     [''go x'', ''go'', ''x''] example_state = Inl NilDereference \<and>
   UsingByGroup example_resolver 1 2 [Some (TokenType_Emit 3), None]
     [''zz x'', ''zz'', ''x''] example_state = Inl NilDereference \<and>
   byGroupsEmitter_Emit (-1) [Some (TokenType_Emit 3), None]
     [''zz x'', ''zz'', ''x''] example_state = Inr [Token 3 ''zz'']"
  by (simp add: UsingByGroup_def example_resolver_def example_lexer_def TokenType_Emit_def
        Concaterator_def byGroupsEmitter_Emit_def)

text \<open>
  Claim C7. When the lexer that a using emitter or a using-self emitter delegates to
  returns an error from \<^verbatim>\<open>Tokenise\<close>, \<^verbatim>\<open>Emit\<close> panics with that error: it returns no
  tokens and puts no \<^verbatim>\<open>Error\<close> token in their place. An enclosing by-groups emitter
  passes the panic on.
\<close>

theorem using_failure_panics:
  "(Tokenise l (Some (TokeniseOptions ''root'' True)) whole = Inl err \<longrightarrow>
      usingEmitter_Emit name (Some l) (whole # caps) state = Inl (PanicError err) \<and>
      byGroupsEmitter_Emit Error [Some (usingEmitter_Emit name (Some l))] [outer, whole] state =
        Inl (PanicError err)) \<and>
   (Tokenise (Lexer state) (Some (TokeniseOptions st True)) whole = Inl err \<longrightarrow>
      usingSelfEmitter_Emit st (whole # caps) state = Inl (PanicError err) \<and>
      byGroupsEmitter_Emit Error [Some (usingSelfEmitter_Emit st)] [outer, whole] state =
        Inl (PanicError err))"
  by (simp add: usingEmitter_Emit_def usingSelfEmitter_Emit_def byGroupsEmitter_Emit_def)

theorem using_failure_panics_witness:
  "usingEmitter_Emit ''go'' (Some failing_lexer) [''x''] example_state =
     Inl (PanicError ''no root state'') \<and>
   byGroupsEmitter_Emit (-1) [Some (usingEmitter_Emit ''go'' (Some failing_lexer))]
     [''(x)'', ''x''] example_state = Inl (PanicError ''no root state'') \<and>
   usingSelfEmitter_Emit ''block'' [''x''] failing_state = Inl (PanicError ''no root state'') \<and>
   byGroupsEmitter_Emit (-1) [Some (usingSelfEmitter_Emit ''block'')]
     [''(x)'', ''x''] failing_state = Inl (PanicError ''no root state'')"
  using using_failure_panics
      [of failing_lexer "''x''" "''no root state''" "''go''" "[]" example_state "-1" "''(x)''"
          "''block''"]
    using_failure_panics
      [of failing_lexer "''x''" "''no root state''" "''go''" "[]" failing_state "-1" "''(x)''"
          "''block''"]
  by (simp add: failing_lexer_def failing_state_def example_state_def)

text \<open>
  The by-group-names emitter on a match with no capture group besides the whole match:
  the emitter stored under the key \<^verbatim>\<open>0\<close> is given the whole match, and without such an
  entry the result is one \<^verbatim>\<open>Error\<close> token over the whole match.
\<close>

lemma byGroupNames_no_groups:
  assumes "card (dom (NamedGroups state)) = 1"
  shows "(Emitters ''0'' = Some (Some e) \<longrightarrow>
            byGroupNamesEmitter_Emit Error Emitters groups state = e groups state) \<and>
         (Emitters ''0'' = None \<longrightarrow>
            byGroupNamesEmitter_Emit Error Emitters (whole # caps) state =
              Inr [Token Error whole])"
  using assms
  by (auto simp: byGroupNamesEmitter_Emit_def TokenType_Emit_def Concaterator_def
           split: sum.splits)

text \<open>
  Claim C10. The claim fails where the map holds a nil emitter under the key \<^verbatim>\<open>0\<close>:
  the entry exists, the branch for a match without capture groups calls \<^verbatim>\<open>Emit\<close> on it
  without the nil test that the loop of the other branch makes, and the call panics
  instead of producing tokens.
\<close>

theorem byGroupNames_nil_entry_panics:
  "byGroupNamesEmitter_Emit (-1) [''0'' \<mapsto> None] [''x'']
     (example_state\<lparr>NamedGroups := [''0'' \<mapsto> ''x'']\<rparr>) = Inl NilDereference"
  by (simp add: byGroupNamesEmitter_Emit_def)

section \<open>Properties of serialise.go\<close>

lemma find_unknown_name:
  "text \<notin> snd ` set tm \<Longrightarrow> find (\<lambda>(tt, x). x = text) tm = None"
  by (induction tm) auto

lemma find_known_name:
  "distinct (map snd tm) \<Longrightarrow> (t, text) \<in> set tm \<Longrightarrow>
   find (\<lambda>(tt, x). x = text) tm = Some (t, text)"
  by (induction tm) (auto simp: rev_image_eqI)

lemma attr_value_last: "attr_value (attrs @ [(name, v)]) name = v"
  by (simp add: attr_value_def)

lemma canonical_names_String:
  "canonical_names tm String \<Longrightarrow> (t, text) \<in> set tm \<Longrightarrow> String t = text"
  by (auto simp: canonical_names_def list_all_iff)

text \<open>
  Claim C8. Encoding a token type writes the attribute \<^verbatim>\<open>type\<close> with the name that
  \<^verbatim>\<open>String\<close> gives it. Decoding an element whose \<^verbatim>\<open>type\<close> is the text of no entry of
  the table is an error and yields no token type, whatever follows. When the table and
  \<^verbatim>\<open>String\<close> give each token type one name and each name one token type, decoding the
  name of an entry yields the token type of that entry.
\<close>

theorem TokenType_xml_by_canonical_name:
  "(name \<noteq> [] \<longrightarrow>
      TokenType_MarshalXML String t name attrs =
        Inr [StartElement name (attrs @ [(''type'', String t)]), EndElement name]) \<and>
   (attr_value attrs ''type'' \<notin> snd ` set TokenType_map \<longrightarrow>
      (\<forall>tokens. \<exists>err. TokenType_UnmarshalXML TokenType_map attrs tokens = Inl err) \<and>
      TokenType_UnmarshalXML TokenType_map attrs (EndElement name # rest) =
        Inl (UnknownTokenType (attr_value attrs ''type''))) \<and>
   (canonical_names TokenType_map String \<and> (t, text) \<in> set TokenType_map \<longrightarrow>
      String t = text \<and>
      TokenType_UnmarshalXML TokenType_map (attrs @ [(''type'', text)]) (EndElement name # rest) =
        Inr (t, rest))"
proof (intro conjI impI allI)
  assume "name \<noteq> []"
  then show "TokenType_MarshalXML String t name attrs =
        Inr [StartElement name (attrs @ [(''type'', String t)]), EndElement name]"
    by (simp add: TokenType_MarshalXML_def and_then_def EncodeToken_def)
next
  fix tokens
  assume "attr_value attrs ''type'' \<notin> snd ` set TokenType_map"
  then show "\<exists>err. TokenType_UnmarshalXML TokenType_map attrs tokens = Inl err"
    by (simp add: TokenType_UnmarshalXML_def find_unknown_name split: option.splits)
next
  assume "attr_value attrs ''type'' \<notin> snd ` set TokenType_map"
  then show "TokenType_UnmarshalXML TokenType_map attrs (EndElement name # rest) =
        Inl (UnknownTokenType (attr_value attrs ''type''))"
    by (simp add: TokenType_UnmarshalXML_def find_unknown_name)
next
  assume "canonical_names TokenType_map String \<and> (t, text) \<in> set TokenType_map"
  then show "String t = text"
    by (auto dest: canonical_names_String)
next
  assume a: "canonical_names TokenType_map String \<and> (t, text) \<in> set TokenType_map"
  then have "distinct (map snd TokenType_map)" and "(t, text) \<in> set TokenType_map"
    by (simp_all add: canonical_names_def)
  then have "find (\<lambda>(tt, x). x = text) TokenType_map = Some (t, text)"
    by (rule find_known_name)
  then show "TokenType_UnmarshalXML TokenType_map (attrs @ [(''type'', text)])
          (EndElement name # rest) = Inr (t, rest)"
    by (simp add: TokenType_UnmarshalXML_def attr_value_last)
qed

theorem TokenType_xml_by_canonical_name_witness:
  "TokenType_MarshalXML example_String 1000 ''token'' [] =
     Inr [StartElement ''token'' [(''type'', ''Keyword'')], EndElement ''token''] \<and>
   TokenType_UnmarshalXML example_TokenType_map [(''type'', ''Keywrod'')] [EndElement ''token''] =
     Inl (UnknownTokenType ''Keywrod'') \<and>
   TokenType_UnmarshalXML example_TokenType_map [(''type'', ''Keyword'')] [EndElement ''token''] =
     Inr (1000, [])"
proof -
  have name: "''token'' \<noteq> []" by simp
  have unknown: "attr_value [(''type'', ''Keywrod'')] ''type'' \<notin> snd ` set example_TokenType_map"
    by (simp add: attr_value_def example_TokenType_map_def)
  have known: "canonical_names example_TokenType_map example_String \<and>
      (1000, ''Keyword'') \<in> set example_TokenType_map"
    by (simp add: canonical_names_def example_TokenType_map_def example_String_def)
  show ?thesis
    using name unknown known
      TokenType_xml_by_canonical_name
        [of "''token''" example_String 1000 "[]" example_TokenType_map "[]" "''Keyword''"]
      TokenType_xml_by_canonical_name
        [of "''token''" example_String 1000 "[(''type'', ''Keywrod'')]" example_TokenType_map
            "[]" "''Keyword''"]
    by (simp add: example_String_def example_TokenType_map_def attr_value_def)
qed

text \<open>
  A rule whose emitter is a plain function value is encoded exactly as the same rule with
  no emitter, and a rule whose mutator is not serialisable exactly as the same rule with
  no mutator: the output has no element for it. The \<^verbatim>\<open>rule\<close> element carries the
  pattern and holds what the encoding of the other field writes, and nothing else.
\<close>

lemma Rule_MarshalXML_omits_function_values:
  "(Type r = Some (EmitterFunc f) \<longrightarrow>
      Rule_MarshalXML M String r = Rule_MarshalXML M String (r\<lparr>Type := None\<rparr>)) \<and>
   (Mutator r = Some m \<and> MutatorKind M m = None \<longrightarrow>
      Rule_MarshalXML M String r = Rule_MarshalXML M String (r\<lparr>Mutator := None\<rparr>)) \<and>
   (Type r = None \<and> Mutator r = None \<longrightarrow>
      Rule_MarshalXML M String r =
        Inr [StartElement ''rule'' (if Pattern r \<noteq> [] then [(''pattern'', Pattern r)] else []),
             EndElement ''rule'']) \<and>
   (Type r = None \<and> Mutator r = Some m \<and> MutatorKind M m = Some kind \<and>
    EncodeElement_mutator M m kind = Inr written \<longrightarrow>
      Rule_MarshalXML M String r =
        Inr (StartElement ''rule'' (if Pattern r \<noteq> [] then [(''pattern'', Pattern r)] else [])
             # written @ [EndElement ''rule''])) \<and>
   (Type r = Some e \<and> EmitterKind e = Some kind \<and> EncodeElement_emitter e String kind = Inr written \<and>
    Mutator r = None \<longrightarrow>
      Rule_MarshalXML M String r =
        Inr (StartElement ''rule'' (if Pattern r \<noteq> [] then [(''pattern'', Pattern r)] else [])
             # written @ [EndElement ''rule'']))"
  by (auto simp: Rule_MarshalXML_def and_then_def EncodeToken_def Let_def
           split: option.splits sum.splits)

lemma Rule_MarshalXML_omits_function_values_example:
  "Rule_MarshalXML example_mutators example_String function_rule =
     Inr [StartElement ''rule'' [(''pattern'', ''[a-z]+'')],
          StartElement ''push'' [(''state'', ''String'')], EndElement ''push'',
          EndElement ''rule''] \<and>
   Rule_MarshalXML example_mutators example_String (string_rule\<lparr>Mutator := Some MutatorFunc\<rparr>) =
     Inr [StartElement ''rule'' [(''pattern'', [CHR 0x22])],
          StartElement ''token'' [(''type'', ''LiteralString'')], EndElement ''token'',
          EndElement ''rule'']"
proof -
  have f: "Type function_rule = Some (EmitterFunc (TokenType_Emit 1000))"
    by (simp add: function_rule_def)
  have m: "Mutator (function_rule\<lparr>Type := None\<rparr>) = Some (Push ''String'') \<and>
      Type (function_rule\<lparr>Type := None\<rparr>) = None \<and>
      MutatorKind example_mutators (Push ''String'') = Some ''push'' \<and>
      EncodeElement_mutator example_mutators (Push ''String'') ''push'' =
        Inr [StartElement ''push'' [(''state'', ''String'')], EndElement ''push'']"
    by (simp add: function_rule_def example_mutators_def element_def and_then_def
          EncodeToken_def)
  have g: "Mutator (string_rule\<lparr>Mutator := Some MutatorFunc\<rparr>) = Some MutatorFunc \<and>
      MutatorKind example_mutators MutatorFunc = None"
    by (simp add: example_mutators_def)
  have e: "Type (string_rule\<lparr>Mutator := None\<rparr>) = Some (TokenTypeEmitter 3100) \<and>
      EmitterKind (TokenTypeEmitter 3100) = Some ''token'' \<and>
      EncodeElement_emitter (TokenTypeEmitter 3100) example_String ''token'' =
        Inr [StartElement ''token'' [(''type'', ''LiteralString'')], EndElement ''token''] \<and>
      Mutator (string_rule\<lparr>Mutator := None\<rparr>) = None"
    by (simp add: string_rule_def TokenType_MarshalXML_def and_then_def EncodeToken_def
          example_String_def example_TokenType_map_def)
  show ?thesis
    using f m g e
      Rule_MarshalXML_omits_function_values
        [of function_rule "TokenType_Emit 1000" example_mutators example_String]
      Rule_MarshalXML_omits_function_values
        [of "function_rule\<lparr>Type := None\<rparr>" _ example_mutators example_String
            "Push ''String''" "''push''"]
      Rule_MarshalXML_omits_function_values
        [of "string_rule\<lparr>Mutator := Some MutatorFunc\<rparr>" _ example_mutators example_String
            MutatorFunc]
      Rule_MarshalXML_omits_function_values
        [of "string_rule\<lparr>Mutator := None\<rparr>" _ example_mutators example_String _ "''token''" _
            "TokenTypeEmitter 3100"]
    by (simp add: function_rule_def string_rule_def)
qed

subsection \<open>Round trip\<close>

lemmas codec_defs =
  roundtrip_def Rules_MarshalXML_def element_def encode_all_def encode_slice_def
  Rule_MarshalXML_def and_then_def EncodeToken_def TokenType_MarshalXML_def
  Rules_UnmarshalXML_def DecodeElement_xmlRuleState_def DecodeElement_Rule_def
  Rule_UnmarshalXML_def DecodeElement_emitter_def TokenType_UnmarshalXML_def
  attr_value_def emitterTemplates_def

lemmas example_defs =
  example_mutators_def example_TokenType_map_def example_String_def
  bygroups_rule_def using_rule_def bygroupnames_rule_def string_rule_def

text \<open>The third rule of \<^verbatim>\<open>TestRuleSerialisation\<close> comes back as it was.\<close>

lemma roundtrip_string_rule:
  "roundtrip example_mutators example_TokenType_map example_String
     [(''root'', [string_rule])] = Inr [''root'' \<mapsto> [string_rule]]"
  by (simp add: codec_defs example_defs)

text \<open>An emitter decoded from \<^verbatim>\<open>using\<close> has no lexer and panics when it is used.\<close>

lemma decoded_using_panics:
  "Emit (usingEmitter name None) Error groups state =
     (if groups = [] then Inl IndexOutOfRange else Inl NilDereference)"
  by (simp add: usingEmitter_Emit_def split: list.splits)

text \<open>
  Claim C9. The function value is omitted, as the claim says, but the serialisable
  emitter beside it is not always encoded faithfully. With a mutator that is a plain
  function: a rule with a by-group-names emitter is not encoded at all, the encoding
  returns an error; a rule with a by-groups emitter is encoded with one \<^verbatim>\<open>emit\<close> child
  for each emitter, and decoding that element gives nil emitters; a rule with a using
  emitter is encoded with the name of its lexer only.
\<close>

theorem Rule_MarshalXML_named_emitter_not_faithful:
  "Rule_MarshalXML example_mutators example_String
     (bygroupnames_rule\<lparr>Mutator := Some MutatorFunc\<rparr>) =
     Inl (UnsupportedType ''map[string]chroma.Emitter'') \<and>
   Rule_MarshalXML example_mutators example_String
     (bygroups_rule\<lparr>Mutator := Some MutatorFunc\<rparr>) =
     Inr [StartElement ''rule'' [(''pattern'', ''([a-z]+)( +)'')],
          StartElement ''bygroups'' [],
          StartElement ''emit'' [(''type'', ''Keyword'')], EndElement ''emit'',
          StartElement ''emit'' [(''type'', ''TextWhitespace'')], EndElement ''emit'',
          EndElement ''bygroups'', EndElement ''rule''] \<and>
   DecodeElement_Rule example_mutators example_TokenType_map
     [(''pattern'', ''([a-z]+)( +)'')]
     [StartElement ''bygroups'' [],
      StartElement ''emit'' [(''type'', ''Keyword'')], EndElement ''emit'',
      StartElement ''emit'' [(''type'', ''TextWhitespace'')], EndElement ''emit'',
      EndElement ''bygroups''] =
     Inr (bygroups_rule\<lparr>Type := Some (byGroupsEmitter [None, None])\<rparr>) \<and>
   Rule_MarshalXML example_mutators example_String
     (using_rule\<lparr>Mutator := Some MutatorFunc\<rparr>) =
     Inr [StartElement ''rule'' [(''pattern'', ''<[^>]+>'')],
          StartElement ''using'' [(''lexer'', ''html'')], EndElement ''using'',
          EndElement ''rule'']"
  by (simp add: codec_defs example_defs)

text \<open>
  Claim C1. The round trip fails on tables built from the serialisable emitters only.
  The rule of the header comment of serialise.go, a by-groups emitter over two token
  types, is encoded and decoded without error and comes back with two nil emitters; the
  decoded table differs from the original. A using emitter comes back without its lexer.
  A by-group-names emitter cannot be encoded at all.
\<close>

theorem roundtrip_fails_on_serialisable_emitters:
  "roundtrip example_mutators example_TokenType_map example_String
     [(''root'', [bygroups_rule])] =
     Inr [''root'' \<mapsto> [bygroups_rule\<lparr>Type := Some (byGroupsEmitter [None, None])\<rparr>]] \<and>
   [''root'' \<mapsto> [bygroups_rule\<lparr>Type := Some (byGroupsEmitter [None, None])\<rparr>]] \<noteq>
     map_of [(''root'', [bygroups_rule])] \<and>
   roundtrip example_mutators example_TokenType_map example_String
     [(''root'', [using_rule])] =
     Inr [''root'' \<mapsto> [using_rule\<lparr>Type := Some (usingEmitter ''html'' None)\<rparr>]] \<and>
   [''root'' \<mapsto> [using_rule\<lparr>Type := Some (usingEmitter ''html'' None)\<rparr>]] \<noteq>
     map_of [(''root'', [using_rule])] \<and>
   roundtrip example_mutators example_TokenType_map example_String
     [(''root'', [bygroupnames_rule])] = Inl (UnsupportedType ''map[string]chroma.Emitter'')"
proof (intro conjI)
  show "[''root'' \<mapsto> [bygroups_rule\<lparr>Type := Some (byGroupsEmitter [None, None])\<rparr>]] \<noteq>
     map_of [(''root'', [bygroups_rule])]"
    by (auto simp: bygroups_rule_def dest!: map_upd_eqD1)
  show "[''root'' \<mapsto> [using_rule\<lparr>Type := Some (usingEmitter ''html'' None)\<rparr>]] \<noteq>
     map_of [(''root'', [using_rule])]"
    by (auto simp: using_rule_def dest!: map_upd_eqD1)
qed (simp_all add: codec_defs example_defs)

end
